theory Spec2Isabelle
  imports Main
begin

section \<open>Data model\<close>

text \<open>
  The records returned by the two remote backends.  \<open>VM\<close> is the reply of the VM
  registry's \<open>Find\<close>; \<open>Key\<close> is one entry of the public-key store's \<open>GetKeys\<close>
  reply (its \<open>Name\<close> field is the key's label).  Go strings are byte strings, so
  they are modelled as \<open>string\<close>.
\<close>

record VM =
  Name :: string

record Key =
  Algo :: string
  Pubkey :: string
  Comment :: string
  Name :: string

text \<open>A failed remote call (VM not found, transport failure, ...).\<close>

datatype BackendError = RpcError string

text \<open>The remote calls a handler makes, in the order it makes them.\<close>

datatype rpc = CallFind string | CallGetKeys string

subsection \<open>The response writer\<close>

text \<open>
  \<open>http.ResponseWriter\<close>: the status line is unset until \<open>WriteHeader\<close> or the first
  \<open>Write\<close>; a later \<open>WriteHeader\<close> is ignored; \<open>Write\<close> on an unset status sends 200
  first and then appends the bytes.  \<open>headers\<close> holds what the handler itself put in
  the header map.
\<close>

record ResponseWriter =
  status :: "nat option"
  headers :: "(string \<times> string) list"
  body :: string

definition WriteHeader :: "nat \<Rightarrow> ResponseWriter \<Rightarrow> ResponseWriter" where
  "WriteHeader code w = (if status w = None then w\<lparr>status := Some code\<rparr> else w)"

definition Write :: "string \<Rightarrow> ResponseWriter \<Rightarrow> ResponseWriter" where
  "Write bs w = (let w' = WriteHeader 200 w in w'\<lparr>body := body w' @ bs\<rparr>)"

definition Header_Set :: "string \<Rightarrow> string \<Rightarrow> ResponseWriter \<Rightarrow> ResponseWriter" where
  "Header_Set k v w = w\<lparr>headers := (k, v) # filter (\<lambda>(k', _). k' \<noteq> k) (headers w)\<rparr>"

text \<open>The writer a handler receives for a new request.\<close>

definition newResponse :: ResponseWriter where
  "newResponse = \<lparr>status = None, headers = [], body = []\<rparr>"

datatype RuntimePanic = IndexOutOfRange int nat

text \<open>
  What a handler leaves behind: the response writer, the remote calls made so far,
  and the Go runtime panic that ended the handler, if one did.
\<close>

record conn =
  resp :: ResponseWriter
  rpcs :: "rpc list"
  panic :: "RuntimePanic option"

definition newConn :: conn where
  "newConn = \<lparr>resp = newResponse, rpcs = [], panic = None\<rparr>"

definition onResp :: "(ResponseWriter \<Rightarrow> ResponseWriter) \<Rightarrow> conn \<Rightarrow> conn" where
  "onResp f c = c\<lparr>resp := f (resp c)\<rparr>"

subsection \<open>Go library functions used by the handlers\<close>

text \<open>Slice indexing \<open>xs[i]\<close> with a Go \<open>int\<close>: out of range is a runtime panic.\<close>

definition index :: "'a list \<Rightarrow> int \<Rightarrow> RuntimePanic + 'a" where
  "index xs i =
     (if i < 0 \<or> int (length xs) \<le> i then Inl (IndexOutOfRange i (length xs))
      else Inr (xs ! nat i))"

text \<open>
  \<open>strings.SplitN(s, sep, n)\<close> for a one-byte separator and \<open>n > 0\<close>: at most \<open>n\<close>
  pieces, the last one holding the unsplit rest; \<open>n = 0\<close> gives no piece.
\<close>

fun cutAt :: "char \<Rightarrow> string \<Rightarrow> (string \<times> string) option" where
  "cutAt sep [] = None"
| "cutAt sep (c # cs) =
     (if c = sep then Some ([], cs)
      else (case cutAt sep cs of None \<Rightarrow> None | Some (a, b) \<Rightarrow> Some (c # a, b)))"

fun SplitN :: "string \<Rightarrow> char \<Rightarrow> nat \<Rightarrow> string list" where
  "SplitN s sep 0 = []"
| "SplitN s sep (Suc 0) = [s]"
| "SplitN s sep (Suc (Suc n)) =
     (case cutAt sep s of None \<Rightarrow> [s] | Some (a, b) \<Rightarrow> a # SplitN b sep (Suc n))"

text \<open>
  \<open>strconv.Atoi\<close> on a 64-bit platform: an optional sign, then one or more decimal
  digits, and the value must fit a 64-bit signed integer (\<open>2 ^ 63\<close> is
  9223372036854775808).
\<close>

datatype NumError = ErrSyntax | ErrRange

definition isDigit :: "char \<Rightarrow> bool" where
  "isDigit c = ((48 :: nat) \<le> of_char c \<and> of_char c \<le> (57 :: nat))"

fun digitsVal :: "nat \<Rightarrow> string \<Rightarrow> nat" where
  "digitsVal acc [] = acc"
| "digitsVal acc (c # cs) = digitsVal (acc * 10 + (of_char c - (48 :: nat))) cs"

definition parseDigits :: "bool \<Rightarrow> string \<Rightarrow> NumError + int" where
  "parseDigits neg ds =
     (if ds = [] \<or> \<not> list_all isDigit ds then Inl ErrSyntax
      else let n = digitsVal 0 ds in
        if neg then (if 9223372036854775808 < n then Inl ErrRange else Inr (- int n))
        else (if 9223372036854775808 \<le> n then Inl ErrRange else Inr (int n)))"

definition Atoi :: "string \<Rightarrow> NumError + int" where
  "Atoi s =
     (case s of
        [] \<Rightarrow> Inl ErrSyntax
      | c # cs \<Rightarrow>
          if c = CHR ''-'' then parseDigits True cs
          else if c = CHR ''+'' then parseDigits False cs
          else parseDigits False s)"

text \<open>The decimal rendering of \<open>%d\<close> for a non-negative integer.\<close>

definition digitChar :: "nat \<Rightarrow> char" where
  "digitChar d = ''0123456789'' ! d"

fun Itoa :: "nat \<Rightarrow> string" where
  "Itoa n = (if n < 10 then [digitChar n] else Itoa (n div 10) @ [digitChar (n mod 10)])"

declare Itoa.simps [simp del]

text \<open>\<open>fmt.Sprintf\<close> with the formats \<open>"%d=%s"\<close> and \<open>"%s %s %s"\<close>.\<close>

definition Sprintf_d_s :: "nat \<Rightarrow> string \<Rightarrow> string" where
  "Sprintf_d_s i s = Itoa i @ ''='' @ s"

definition Sprintf_s_s_s :: "string \<Rightarrow> string \<Rightarrow> string \<Rightarrow> string" where
  "Sprintf_s_s_s a b c = a @ '' '' @ b @ '' '' @ c"

text \<open>\<open>strings.Join\<close>.\<close>

fun Join :: "string list \<Rightarrow> string \<Rightarrow> string" where
  "Join [] sep = []"
| "Join [x] sep = x"
| "Join (x # y # ys) sep = x @ sep @ Join (y # ys) sep"

text \<open>
  \<open>http.Redirect\<close> for an absolute ASCII URL: the \<open>Location\<close> header, the status
  line and, for a GET request, a short HTML note as body.  Other headers the library
  may add are not modelled.
\<close>

record Request =
  Method :: string
  RemoteAddr :: string

definition htmlEscape :: "string \<Rightarrow> string" where
  "htmlEscape s = concat (map (\<lambda>c.
     if c = CHR ''&'' then ''&amp;''
     else if c = CHR ''<'' then ''&lt;''
     else if c = CHR ''>'' then ''&gt;''
     else if c = CHR 0x22 then ''&#34;''
     else if c = CHR 0x27 then ''&#39;''
     else [c]) s)"

definition statusText :: "nat \<Rightarrow> string" where
  "statusText code =
     (if code = 301 then ''Moved Permanently''
      else if code = 302 then ''Found''
      else if code = 303 then ''See Other''
      else if code = 307 then ''Temporary Redirect''
      else if code = 308 then ''Permanent Redirect''
      else [])"

definition Redirect :: "Request \<Rightarrow> string \<Rightarrow> nat \<Rightarrow> ResponseWriter \<Rightarrow> ResponseWriter" where
  "Redirect rq url code w =
     (let w1 = WriteHeader code (Header_Set ''Location'' url w) in
      if Method rq = ''GET''
      then Write (''<a href='' @ [CHR 0x22] @ htmlEscape url @ [CHR 0x22] @ ''>'' @
                  statusText code @ ''</a>.'' @ [CHR 0x0A, CHR 0x0A]) w1
      else w1)"

subsection \<open>The remote backends\<close>

text \<open>
  The two gRPC clients are the handlers' only view of the backends.  Within one
  request each is called at most once, so a client is a function from its argument to
  its reply or error.  \<open>Find\<close> is always called with \<open>FindBy = IP\<close>; the reply of
  \<open>GetKeys\<close> is its \<open>Keys\<close> field.  Both wrappers record the call.
\<close>

type_synonym VMRegistryClient = "string \<Rightarrow> BackendError + VM"
type_synonym PubkeyStoreClient = "string \<Rightarrow> BackendError + Key list"

definition Find :: "VMRegistryClient \<Rightarrow> string \<Rightarrow> conn \<Rightarrow> (BackendError + VM) \<times> conn" where
  "Find cli ip c = (cli ip, c\<lparr>rpcs := rpcs c @ [CallFind ip]\<rparr>)"

definition GetKeys :: "PubkeyStoreClient \<Rightarrow> string \<Rightarrow> conn \<Rightarrow> (BackendError + Key list) \<times> conn" where
  "GetKeys cli vmName c = (cli vmName, c\<lparr>rpcs := rpcs c @ [CallGetKeys vmName]\<rparr>)"

text \<open>
  A compiled \<open>html/template\<close>: executing it on a context gives the bytes written to
  the output buffer and, possibly, an error.
\<close>

record UserDataContext =
  Hostname :: string
  PublicKeys :: "string list"

datatype TemplateError = ExecError string

type_synonym Template = "UserDataContext \<Rightarrow> string \<times> TemplateError option"

section \<open>The EC2 renderer (package ec2server)\<close>

record ec2_Server =
  vmregClient :: VMRegistryClient
  pubkeystoreClient :: PubkeyStoreClient
  userDataTemplate :: Template

text \<open>
  Modelled from the spec: \<open>metadataKeys\<close>, \<open>renderList\<close> and \<open>renderString\<close> are
  used by server.go but their declarations are not among the source files.  The spec
  has the root listing as the fixed set hostname, instance-id, public-keys; a
  directory listing as its entries separated by a newline with no trailing marker; and
  a leaf as the plain text of its value.
\<close>

definition metadataKeys :: "string list" where
  "metadataKeys = [''hostname'', ''instance-id'', ''public-keys'']"

definition renderList :: "string list \<Rightarrow> ResponseWriter \<Rightarrow> ResponseWriter" where
  "renderList l w = Write (Join l [CHR 0x0A]) w"

definition renderString :: "string \<Rightarrow> ResponseWriter \<Rightarrow> ResponseWriter" where
  "renderString s w = Write s w"

text \<open>\<open>HandleMetadata\<close>, server.go lines 51-54.\<close>

definition ec2_HandleMetadata :: "ec2_Server \<Rightarrow> conn \<Rightarrow> conn" where
  "ec2_HandleMetadata s c = onResp (renderList metadataKeys) c"

text \<open>\<open>HandleHostname\<close>, server.go lines 56-65.\<close>

definition ec2_HandleHostname :: "ec2_Server \<Rightarrow> conn \<Rightarrow> string \<Rightarrow> conn" where
  "ec2_HandleHostname s c ip =
     (case Find (ec2_Server.vmregClient s) ip c of
        (Inl err, c1) \<Rightarrow> onResp (WriteHeader 500) c1
      | (Inr vm, c1) \<Rightarrow> onResp (renderString (VM.Name vm)) c1)"

text \<open>\<open>HandleInstanceID\<close>, server.go lines 67-79.\<close>

definition ec2_HandleInstanceID :: "ec2_Server \<Rightarrow> conn \<Rightarrow> string \<Rightarrow> conn" where
  "ec2_HandleInstanceID s c ip =
     (case Find (ec2_Server.vmregClient s) ip c of
        (Inl err, c1) \<Rightarrow> onResp (WriteHeader 500) c1
      | (Inr vm, c1) \<Rightarrow>
          (let instanceID = ''i-'' @ VM.Name vm
           in onResp (renderString instanceID) c1))"

text \<open>
  The loop of \<open>HandlePublicKeys\<close> (lines 97-101): \<open>repl\<close> starts as \<open>len(pkeys.Keys)\<close>
  empty strings and slot \<open>i\<close> receives \<open>Sprintf("%d=%s", i, k.Name)\<close>.
\<close>

fun fillRepl :: "nat \<Rightarrow> Key list \<Rightarrow> string list \<Rightarrow> string list" where
  "fillRepl i [] repl = repl"
| "fillRepl i (k # ks) repl = fillRepl (Suc i) ks (repl[i := Sprintf_d_s i (Key.Name k)])"

text \<open>\<open>HandlePublicKeys\<close>, server.go lines 81-104.\<close>

definition ec2_HandlePublicKeys :: "ec2_Server \<Rightarrow> conn \<Rightarrow> string \<Rightarrow> conn" where
  "ec2_HandlePublicKeys s c ip =
     (case Find (ec2_Server.vmregClient s) ip c of
        (Inl err, c1) \<Rightarrow> onResp (WriteHeader 500) c1
      | (Inr vm, c1) \<Rightarrow>
          (case GetKeys (ec2_Server.pubkeystoreClient s) (VM.Name vm) c1 of
             (Inl err, c2) \<Rightarrow> onResp (WriteHeader 500) c2
           | (Inr pkeys, c2) \<Rightarrow>
               (let repl = fillRepl 0 pkeys (replicate (length pkeys) [])
                in onResp (renderList repl) c2)))"

text \<open>\<open>HandlePublicKey\<close>, server.go lines 106-129.\<close>

definition ec2_HandlePublicKey :: "ec2_Server \<Rightarrow> conn \<Rightarrow> string \<Rightarrow> int \<Rightarrow> conn" where
  "ec2_HandlePublicKey s c ip keyIdx =
     (case Find (ec2_Server.vmregClient s) ip c of
        (Inl err, c1) \<Rightarrow> onResp (WriteHeader 500) c1
      | (Inr vm, c1) \<Rightarrow>
          (case GetKeys (ec2_Server.pubkeystoreClient s) (VM.Name vm) c1 of
             (Inl err, c2) \<Rightarrow> onResp (WriteHeader 500) c2
           | (Inr pkeys, c2) \<Rightarrow>
               if keyIdx \<ge> int (length pkeys) then onResp (WriteHeader 500) c2
               else onResp (renderString ''openssh-key'') c2))"

text \<open>\<open>HandlePublicKeyData\<close>, server.go lines 131-157.\<close>

definition ec2_HandlePublicKeyData :: "ec2_Server \<Rightarrow> conn \<Rightarrow> string \<Rightarrow> int \<Rightarrow> conn" where
  "ec2_HandlePublicKeyData s c ip keyIdx =
     (case Find (ec2_Server.vmregClient s) ip c of
        (Inl err, c1) \<Rightarrow> onResp (WriteHeader 500) c1
      | (Inr vm, c1) \<Rightarrow>
          (case GetKeys (ec2_Server.pubkeystoreClient s) (VM.Name vm) c1 of
             (Inl err, c2) \<Rightarrow> onResp (WriteHeader 500) c2
           | (Inr pkeys, c2) \<Rightarrow>
               if keyIdx \<ge> int (length pkeys) then onResp (WriteHeader 500) c2
               else (case index pkeys keyIdx of
                       Inl p \<Rightarrow> c2\<lparr>panic := Some p\<rparr>
                     | Inr key \<Rightarrow>
                         (let keyString = Sprintf_s_s_s (Algo key) (Pubkey key) (Comment key)
                          in onResp (renderString keyString) c2))))"

subsection \<open>The EC2 router\<close>

text \<open>
  \<open>NewRouter\<close> registers one closure per path template under the prefix
  \<open>/2009-04-04\<close>.  A route is the template the request path matched, with the text
  bound to \<open>{key}\<close> where the template has it.
\<close>

datatype ec2_Route =
    RMetadata
  | RHostname
  | RInstanceID
  | RPublicKeysNoSlash
  | RPublicKeys
  | RPublicKey string
  | RPublicKeyData string

text \<open>
  The caller address of a closure, \<open>strings.SplitN(rq.RemoteAddr, ":", 2)[0]\<close>
  (ec2server router lines 50, 60, 74, 84 and 101; noclserver/router.go lines 39 and 49).
\<close>

definition remoteIP :: "Request \<Rightarrow> RuntimePanic + string" where
  "remoteIP rq = index (SplitN (RemoteAddr rq) CHR '':'' 2) 0"

definition ec2_NewRouter :: "ec2_Server \<Rightarrow> ec2_Route \<Rightarrow> conn \<Rightarrow> Request \<Rightarrow> conn" where
  "ec2_NewRouter s route c rq =
     (case route of
        RMetadata \<Rightarrow> ec2_HandleMetadata s c
      | RHostname \<Rightarrow>
          (case remoteIP rq of Inl p \<Rightarrow> c\<lparr>panic := Some p\<rparr> | Inr ip \<Rightarrow> ec2_HandleHostname s c ip)
      | RInstanceID \<Rightarrow>
          (case remoteIP rq of Inl p \<Rightarrow> c\<lparr>panic := Some p\<rparr> | Inr ip \<Rightarrow> ec2_HandleInstanceID s c ip)
      | RPublicKeysNoSlash \<Rightarrow>
          onResp (Redirect rq ''http://169.254.169.254/2009-04-04/meta-data/public-keys/'' 301) c
      | RPublicKeys \<Rightarrow>
          (case remoteIP rq of Inl p \<Rightarrow> c\<lparr>panic := Some p\<rparr> | Inr ip \<Rightarrow> ec2_HandlePublicKeys s c ip)
      | RPublicKey key \<Rightarrow>
          (case remoteIP rq of Inl p \<Rightarrow> c\<lparr>panic := Some p\<rparr>
           | Inr ip \<Rightarrow>
               (case Atoi key of
                  Inl err \<Rightarrow> onResp (WriteHeader 500) c
                | Inr keyIdx \<Rightarrow> ec2_HandlePublicKey s c ip keyIdx))
      | RPublicKeyData key \<Rightarrow>
          (case remoteIP rq of Inl p \<Rightarrow> c\<lparr>panic := Some p\<rparr>
           | Inr ip \<Rightarrow>
               (case Atoi key of
                  Inl err \<Rightarrow> onResp (WriteHeader 500) c
                | Inr keyIdx \<Rightarrow> ec2_HandlePublicKeyData s c ip keyIdx)))"

section \<open>The NoCloud renderer (package noclserver)\<close>

record nocl_Server =
  vmregClient :: VMRegistryClient
  pubkeystoreClient :: PubkeyStoreClient
  dnsName :: string
  userDataTemplate :: Template

record Metadata =
  LocalHostname :: string
  InstanceID :: string
  PublicKeys :: "string list"

text \<open>
  Modelled from the spec: the declaration of \<open>Metadata\<close>, with the keys its fields
  are serialized under, is not among the source files.  The spec has the document as
  a map with the keys local-hostname, instance-id and public-keys.
\<close>

datatype YamlValue = YString string | YSeq "string list"

definition Metadata_fields :: "Metadata \<Rightarrow> (string \<times> YamlValue) list" where
  "Metadata_fields md =
     [(''local-hostname'', YString (LocalHostname md)),
      (''instance-id'', YString (InstanceID md)),
      (''public-keys'', YSeq (Metadata.PublicKeys md))]"

text \<open>
  \<open>yaml.Marshal\<close> of a \<open>Metadata\<close>: the library's encoder, a parameter here, applied to
  the document's keyed fields.
\<close>

datatype MarshalError = YamlError string

type_synonym YamlEncoder = "(string \<times> YamlValue) list \<Rightarrow> MarshalError + string"

definition yaml_Marshal :: "YamlEncoder \<Rightarrow> Metadata \<Rightarrow> MarshalError + string" where
  "yaml_Marshal enc md = enc (Metadata_fields md)"

text \<open>
  The loop of both handlers (lines 75-78 and 112-115): \<open>keys\<close> starts as
  \<open>len(pkeys.Keys)\<close> empty strings and slot \<open>i\<close> receives
  \<open>Sprintf("%s %s %s", key.Algo, key.Pubkey, key.Comment)\<close>.
\<close>

fun fillKeys :: "nat \<Rightarrow> Key list \<Rightarrow> string list \<Rightarrow> string list" where
  "fillKeys i [] keys = keys"
| "fillKeys i (key # ks) keys = fillKeys (Suc i) ks (keys[i := Sprintf_s_s_s (Algo key) (Pubkey key) (Comment key)])"

text \<open>\<open>HandleMetadata\<close>, noclserver/server.go lines 59-94.\<close>

definition nocl_HandleMetadata :: "YamlEncoder \<Rightarrow> nocl_Server \<Rightarrow> conn \<Rightarrow> string \<Rightarrow> conn" where
  "nocl_HandleMetadata enc s c ip =
     (case Find (nocl_Server.vmregClient s) ip c of
        (Inl err, c1) \<Rightarrow> onResp (WriteHeader 500) c1
      | (Inr vm, c1) \<Rightarrow>
          (case GetKeys (nocl_Server.pubkeystoreClient s) (VM.Name vm) c1 of
             (Inl err, c2) \<Rightarrow> onResp (WriteHeader 500) c2
           | (Inr pkeys, c2) \<Rightarrow>
               (let keys = fillKeys 0 pkeys (replicate (length pkeys) []);
                    md = \<lparr>LocalHostname = VM.Name vm,
                          InstanceID = ''i-'' @ VM.Name vm,
                          PublicKeys = keys\<rparr>
                in case yaml_Marshal enc md of
                     Inl err \<Rightarrow> onResp (WriteHeader 500) c2
                   | Inr jsonData \<Rightarrow> onResp (Write jsonData) c2)))"

text \<open>
  \<open>HandleUserdata\<close>, noclserver/server.go lines 96-128.  The error of \<open>Execute\<close> is
  dropped: whatever reached the buffer is written.
\<close>

definition nocl_HandleUserdata :: "nocl_Server \<Rightarrow> conn \<Rightarrow> string \<Rightarrow> conn" where
  "nocl_HandleUserdata s c ip =
     (case Find (nocl_Server.vmregClient s) ip c of
        (Inl err, c1) \<Rightarrow> onResp (WriteHeader 500) c1
      | (Inr vm, c1) \<Rightarrow>
          (case GetKeys (nocl_Server.pubkeystoreClient s) (VM.Name vm) c1 of
             (Inl err, c2) \<Rightarrow> onResp (WriteHeader 500) c2
           | (Inr pkeys, c2) \<Rightarrow>
               (let keys = fillKeys 0 pkeys (replicate (length pkeys) []);
                    userData = fst (nocl_Server.userDataTemplate s
                                 \<lparr>Hostname = VM.Name vm @ ''.'' @ dnsName s,
                                  UserDataContext.PublicKeys = keys\<rparr>)
                in onResp (Write userData) c2)))"

subsection \<open>The NoCloud router\<close>

datatype nocl_Route = NMetadata | NUserdata

definition nocl_NewRouter :: "YamlEncoder \<Rightarrow> nocl_Server \<Rightarrow> nocl_Route \<Rightarrow> conn \<Rightarrow> Request \<Rightarrow> conn" where
  "nocl_NewRouter enc s route c rq =
     (case route of
        NMetadata \<Rightarrow>
          (case remoteIP rq of Inl p \<Rightarrow> c\<lparr>panic := Some p\<rparr> | Inr ip \<Rightarrow> nocl_HandleMetadata enc s c ip)
      | NUserdata \<Rightarrow>
          (case remoteIP rq of Inl p \<Rightarrow> c\<lparr>panic := Some p\<rparr> | Inr ip \<Rightarrow> nocl_HandleUserdata s c ip))"

section \<open>Outcomes of a request\<close>

text \<open>
  The two ways a handler normally ends on a fresh writer, after the remote calls
  \<open>calls\<close>: \<open>w.WriteHeader(500)\<close> and return, which leaves status 500 and not a byte
  of body; or one \<open>Write\<close> of the whole body, which sends it with status 200.
\<close>

definition serverError :: "rpc list \<Rightarrow> conn" where
  "serverError calls =
     \<lparr>resp = \<lparr>status = Some 500, headers = [], body = []\<rparr>, rpcs = calls, panic = None\<rparr>"

definition served :: "string \<Rightarrow> rpc list \<Rightarrow> conn" where
  "served text calls =
     \<lparr>resp = \<lparr>status = Some 200, headers = [], body = text\<rparr>, rpcs = calls, panic = None\<rparr>"

text \<open>The caller address with its port cut off at the first colon.\<close>

definition stripPort :: "string \<Rightarrow> string" where
  "stripPort addr = takeWhile (\<lambda>c. c \<noteq> CHR '':'') addr"

section \<open>A worked scenario\<close>

text \<open>
  The scenario of the specification: address 10.0.0.5 resolves to the VM vm-42 with
  the single key (ssh-rsa, AAAA, host1) labelled k0.  Address 10.0.0.6 resolves to a
  VM whose key fetch fails, and no other address resolves.
\<close>

definition demoVM :: VM where
  "demoVM = \<lparr>VM.Name = ''vm-42''\<rparr>"

definition demoKey :: Key where
  "demoKey = \<lparr>Algo = ''ssh-rsa'', Pubkey = ''AAAA'', Comment = ''host1'', Name = ''k0''\<rparr>"

definition demoFind :: VMRegistryClient where
  "demoFind ip =
     (if ip = ''10.0.0.5'' then Inr demoVM
      else if ip = ''10.0.0.6'' then Inr \<lparr>VM.Name = ''vm-43''\<rparr>
      else Inl (RpcError ''not found''))"

definition demoGetKeys :: PubkeyStoreClient where
  "demoGetKeys vmName =
     (if vmName = ''vm-42'' then Inr [demoKey] else Inl (RpcError ''unavailable''))"

definition demoTemplate :: Template where
  "demoTemplate ctx = (''fqdn: '' @ Hostname ctx, None)"

definition demoEncoder :: YamlEncoder where
  "demoEncoder doc =
     Inr (concat (map (\<lambda>(k, v). k @ '': '' @
            (case v of YString x \<Rightarrow> x | YSeq xs \<Rightarrow> ''['' @ Join xs '', '' @ '']'') @ [CHR 0x0A])
          doc))"

definition failingEncoder :: YamlEncoder where
  "failingEncoder doc = Inl (YamlError ''cannot marshal'')"

definition demoEc2 :: ec2_Server where
  "demoEc2 = \<lparr>ec2_Server.vmregClient = demoFind,
              ec2_Server.pubkeystoreClient = demoGetKeys,
              ec2_Server.userDataTemplate = demoTemplate\<rparr>"

definition demoNocl :: nocl_Server where
  "demoNocl = \<lparr>vmregClient = demoFind, pubkeystoreClient = demoGetKeys,
               dnsName = ''example.org'', userDataTemplate = demoTemplate\<rparr>"

definition demoRequest :: Request where
  "demoRequest = \<lparr>Method = ''GET'', RemoteAddr = ''10.0.0.5:51234''\<rparr>"

section \<open>Library functions and loops\<close>

lemma cutAt_None: "cutAt sep s = None \<Longrightarrow> takeWhile (\<lambda>c. c \<noteq> sep) s = s"
  by (induction s) (auto split: if_splits option.splits)

lemma cutAt_Some: "cutAt sep s = Some (a, b) \<Longrightarrow> a = takeWhile (\<lambda>c. c \<noteq> sep) s"
  by (induction s arbitrary: a b) (auto split: if_splits option.splits)

lemma SplitN_2_first:
  "index (SplitN s sep 2) 0 = Inr (takeWhile (\<lambda>c. c \<noteq> sep) s)"
proof (cases "cutAt sep s")
  case None
  then show ?thesis
    by (simp add: numeral_2_eq_2 index_def cutAt_None)
next
  case (Some ab)
  then obtain a b where "cutAt sep s = Some (a, b)"
    by (cases ab) simp
  then show ?thesis
    by (simp add: numeral_2_eq_2 index_def cutAt_Some)
qed

lemma remoteIP_strips_port: "remoteIP rq = Inr (stripPort (RemoteAddr rq))"
  by (simp add: remoteIP_def SplitN_2_first stripPort_def)

lemma fillRepl_take_map:
  "length repl = i + length ks \<Longrightarrow>
   fillRepl i ks repl =
     take i repl @ map (\<lambda>j. Sprintf_d_s (i + j) (Key.Name (ks ! j))) [0..<length ks]"
proof (induction ks arbitrary: i repl)
  case Nil
  then show ?case by simp
next
  case (Cons k ks)
  have len: "length (repl[i := Sprintf_d_s i (Key.Name k)]) = Suc i + length ks"
    using Cons.prems by simp
  have tk: "take (Suc i) (repl[i := Sprintf_d_s i (Key.Name k)]) =
            take i repl @ [Sprintf_d_s i (Key.Name k)]"
    using Cons.prems by (simp add: take_Suc_conv_app_nth)
  show ?case
    using Cons.IH [OF len] tk
    by (simp add: map_upt_Suc del: upt_Suc)
qed

lemma fillRepl_all:
  "fillRepl 0 ks (replicate (length ks) []) =
     map (\<lambda>j. Sprintf_d_s j (Key.Name (ks ! j))) [0..<length ks]"
  using fillRepl_take_map [of "replicate (length ks) []" 0 ks] by simp

lemma fillKeys_take_map:
  "length keys = i + length ks \<Longrightarrow>
   fillKeys i ks keys =
     take i keys @ map (\<lambda>key. Sprintf_s_s_s (Algo key) (Pubkey key) (Comment key)) ks"
proof (induction ks arbitrary: i keys)
  case Nil
  then show ?case by simp
next
  case (Cons k ks)
  let ?e = "Sprintf_s_s_s (Algo k) (Pubkey k) (Comment k)"
  have len: "length (keys[i := ?e]) = Suc i + length ks"
    using Cons.prems by simp
  have tk: "take (Suc i) (keys[i := ?e]) = take i keys @ [?e]"
    using Cons.prems by (simp add: take_Suc_conv_app_nth)
  show ?case
    using Cons.IH [OF len] tk by simp
qed

lemma fillKeys_all:
  "fillKeys 0 ks (replicate (length ks) []) =
     map (\<lambda>key. Sprintf_s_s_s (Algo key) (Pubkey key) (Comment key)) ks"
  using fillKeys_take_map [of "replicate (length ks) []" 0 ks] by simp

lemmas writer_defs = onResp_def newConn_def newResponse_def WriteHeader_def Write_def
  renderString_def renderList_def Find_def GetKeys_def serverError_def served_def


subsection \<open>The handlers, case by case\<close>

lemma ec2_HandleHostname_fail:
  "ec2_Server.vmregClient s ip = Inl e \<Longrightarrow> ec2_HandleHostname s newConn ip = serverError [CallFind ip]"
  by (simp add: ec2_HandleHostname_def writer_defs)

lemma ec2_HandleHostname_ok:
  "ec2_Server.vmregClient s ip = Inr vm \<Longrightarrow>
   ec2_HandleHostname s newConn ip = served (VM.Name vm) [CallFind ip]"
  by (simp add: ec2_HandleHostname_def writer_defs)

lemma ec2_HandleInstanceID_fail:
  "ec2_Server.vmregClient s ip = Inl e \<Longrightarrow> ec2_HandleInstanceID s newConn ip = serverError [CallFind ip]"
  by (simp add: ec2_HandleInstanceID_def writer_defs)

lemma ec2_HandleInstanceID_ok:
  "ec2_Server.vmregClient s ip = Inr vm \<Longrightarrow>
   ec2_HandleInstanceID s newConn ip = served (''i-'' @ VM.Name vm) [CallFind ip]"
  by (simp add: ec2_HandleInstanceID_def writer_defs)

lemma ec2_HandlePublicKeys_fail:
  "ec2_Server.vmregClient s ip = Inl e \<Longrightarrow> ec2_HandlePublicKeys s newConn ip = serverError [CallFind ip]"
  by (simp add: ec2_HandlePublicKeys_def writer_defs)

lemma ec2_HandlePublicKeys_nokeys:
  "ec2_Server.vmregClient s ip = Inr vm \<Longrightarrow> ec2_Server.pubkeystoreClient s (VM.Name vm) = Inl e \<Longrightarrow>
   ec2_HandlePublicKeys s newConn ip = serverError [CallFind ip, CallGetKeys (VM.Name vm)]"
  by (simp add: ec2_HandlePublicKeys_def writer_defs)

lemma ec2_HandlePublicKeys_ok:
  "ec2_Server.vmregClient s ip = Inr vm \<Longrightarrow> ec2_Server.pubkeystoreClient s (VM.Name vm) = Inr ks \<Longrightarrow>
   ec2_HandlePublicKeys s newConn ip =
     served (Join (map (\<lambda>i. Itoa i @ ''='' @ Key.Name (ks ! i)) [0..<length ks]) [CHR 0x0A])
       [CallFind ip, CallGetKeys (VM.Name vm)]"
  by (simp add: ec2_HandlePublicKeys_def writer_defs fillRepl_all Sprintf_d_s_def)

lemma ec2_HandlePublicKey_fail:
  "ec2_Server.vmregClient s ip = Inl e \<Longrightarrow> ec2_HandlePublicKey s newConn ip k = serverError [CallFind ip]"
  by (simp add: ec2_HandlePublicKey_def writer_defs)

lemma ec2_HandlePublicKey_nokeys:
  "ec2_Server.vmregClient s ip = Inr vm \<Longrightarrow> ec2_Server.pubkeystoreClient s (VM.Name vm) = Inl e \<Longrightarrow>
   ec2_HandlePublicKey s newConn ip k = serverError [CallFind ip, CallGetKeys (VM.Name vm)]"
  by (simp add: ec2_HandlePublicKey_def writer_defs)

lemma ec2_HandlePublicKey_keys:
  "ec2_Server.vmregClient s ip = Inr vm \<Longrightarrow> ec2_Server.pubkeystoreClient s (VM.Name vm) = Inr ks \<Longrightarrow>
   ec2_HandlePublicKey s newConn ip k =
     (if int (length ks) \<le> k then serverError [CallFind ip, CallGetKeys (VM.Name vm)]
      else served ''openssh-key'' [CallFind ip, CallGetKeys (VM.Name vm)])"
  by (simp add: ec2_HandlePublicKey_def writer_defs)

lemma ec2_HandlePublicKeyData_fail:
  "ec2_Server.vmregClient s ip = Inl e \<Longrightarrow> ec2_HandlePublicKeyData s newConn ip k = serverError [CallFind ip]"
  by (simp add: ec2_HandlePublicKeyData_def writer_defs)

lemma ec2_HandlePublicKeyData_nokeys:
  "ec2_Server.vmregClient s ip = Inr vm \<Longrightarrow> ec2_Server.pubkeystoreClient s (VM.Name vm) = Inl e \<Longrightarrow>
   ec2_HandlePublicKeyData s newConn ip k = serverError [CallFind ip, CallGetKeys (VM.Name vm)]"
  by (simp add: ec2_HandlePublicKeyData_def writer_defs)

lemma ec2_HandlePublicKeyData_keys:
  "ec2_Server.vmregClient s ip = Inr vm \<Longrightarrow> ec2_Server.pubkeystoreClient s (VM.Name vm) = Inr ks \<Longrightarrow>
   ec2_HandlePublicKeyData s newConn ip k =
     (if int (length ks) \<le> k then serverError [CallFind ip, CallGetKeys (VM.Name vm)]
      else if k < 0 then
        \<lparr>resp = newResponse, rpcs = [CallFind ip, CallGetKeys (VM.Name vm)],
         panic = Some (IndexOutOfRange k (length ks))\<rparr>
      else served (Algo (ks ! nat k) @ '' '' @ Pubkey (ks ! nat k) @ '' '' @ Comment (ks ! nat k))
             [CallFind ip, CallGetKeys (VM.Name vm)])"
  by (simp add: ec2_HandlePublicKeyData_def writer_defs index_def Sprintf_s_s_s_def)

lemma nocl_HandleMetadata_fail:
  "nocl_Server.vmregClient n ip = Inl e \<Longrightarrow> nocl_HandleMetadata enc n newConn ip = serverError [CallFind ip]"
  by (simp add: nocl_HandleMetadata_def writer_defs)

lemma nocl_HandleMetadata_nokeys:
  "nocl_Server.vmregClient n ip = Inr vm \<Longrightarrow> nocl_Server.pubkeystoreClient n (VM.Name vm) = Inl e \<Longrightarrow>
   nocl_HandleMetadata enc n newConn ip = serverError [CallFind ip, CallGetKeys (VM.Name vm)]"
  by (simp add: nocl_HandleMetadata_def writer_defs)

lemma nocl_HandleMetadata_ok:
  "nocl_Server.vmregClient n ip = Inr vm \<Longrightarrow> nocl_Server.pubkeystoreClient n (VM.Name vm) = Inr ks \<Longrightarrow>
   nocl_HandleMetadata enc n newConn ip =
     (case enc [(''local-hostname'', YString (VM.Name vm)),
                (''instance-id'', YString (''i-'' @ VM.Name vm)),
                (''public-keys'',
                 YSeq (map (\<lambda>k. Algo k @ '' '' @ Pubkey k @ '' '' @ Comment k) ks))] of
        Inl err \<Rightarrow> serverError [CallFind ip, CallGetKeys (VM.Name vm)]
      | Inr text \<Rightarrow> served text [CallFind ip, CallGetKeys (VM.Name vm)])"
  by (simp add: nocl_HandleMetadata_def writer_defs fillKeys_all Sprintf_s_s_s_def
      yaml_Marshal_def Metadata_fields_def split: sum.splits)

lemma nocl_HandleUserdata_fail:
  "nocl_Server.vmregClient n ip = Inl e \<Longrightarrow> nocl_HandleUserdata n newConn ip = serverError [CallFind ip]"
  by (simp add: nocl_HandleUserdata_def writer_defs)

lemma nocl_HandleUserdata_nokeys:
  "nocl_Server.vmregClient n ip = Inr vm \<Longrightarrow> nocl_Server.pubkeystoreClient n (VM.Name vm) = Inl e \<Longrightarrow>
   nocl_HandleUserdata n newConn ip = serverError [CallFind ip, CallGetKeys (VM.Name vm)]"
  by (simp add: nocl_HandleUserdata_def writer_defs)

lemma nocl_HandleUserdata_ok:
  "nocl_Server.vmregClient n ip = Inr vm \<Longrightarrow> nocl_Server.pubkeystoreClient n (VM.Name vm) = Inr ks \<Longrightarrow>
   nocl_HandleUserdata n newConn ip =
     served (fst (nocl_Server.userDataTemplate n
                   \<lparr>Hostname = VM.Name vm @ ''.'' @ dnsName n,
                    UserDataContext.PublicKeys =
                      map (\<lambda>k. Algo k @ '' '' @ Pubkey k @ '' '' @ Comment k) ks\<rparr>))
       [CallFind ip, CallGetKeys (VM.Name vm)]"
  by (simp add: nocl_HandleUserdata_def writer_defs fillKeys_all Sprintf_s_s_s_def)


subsection \<open>The routers\<close>

lemma ec2_NewRouter_simps:
  "ec2_NewRouter s RMetadata c rq = ec2_HandleMetadata s c"
  "ec2_NewRouter s RHostname c rq = ec2_HandleHostname s c (stripPort (RemoteAddr rq))"
  "ec2_NewRouter s RInstanceID c rq = ec2_HandleInstanceID s c (stripPort (RemoteAddr rq))"
  "ec2_NewRouter s RPublicKeys c rq = ec2_HandlePublicKeys s c (stripPort (RemoteAddr rq))"
  "ec2_NewRouter s (RPublicKey key) c rq =
     (case Atoi key of
        Inl err \<Rightarrow> onResp (WriteHeader 500) c
      | Inr keyIdx \<Rightarrow> ec2_HandlePublicKey s c (stripPort (RemoteAddr rq)) keyIdx)"
  "ec2_NewRouter s (RPublicKeyData key) c rq =
     (case Atoi key of
        Inl err \<Rightarrow> onResp (WriteHeader 500) c
      | Inr keyIdx \<Rightarrow> ec2_HandlePublicKeyData s c (stripPort (RemoteAddr rq)) keyIdx)"
  by (simp_all add: ec2_NewRouter_def remoteIP_strips_port)

lemma nocl_NewRouter_simps:
  "nocl_NewRouter enc n NMetadata c rq = nocl_HandleMetadata enc n c (stripPort (RemoteAddr rq))"
  "nocl_NewRouter enc n NUserdata c rq = nocl_HandleUserdata n c (stripPort (RemoteAddr rq))"
  by (simp_all add: nocl_NewRouter_def remoteIP_strips_port)

lemma unparsable_500: "onResp (WriteHeader 500) newConn = serverError []"
  by (simp add: writer_defs)

subsection \<open>Which address each handler looks up\<close>

lemma ec2_HandleHostname_rpcs:
  "rpcs (ec2_HandleHostname s newConn ip) = [CallFind ip]"
  by (cases "ec2_Server.vmregClient s ip")
     (simp_all add: ec2_HandleHostname_fail ec2_HandleHostname_ok serverError_def served_def)

lemma ec2_HandleInstanceID_rpcs:
  "rpcs (ec2_HandleInstanceID s newConn ip) = [CallFind ip]"
  by (cases "ec2_Server.vmregClient s ip")
     (simp_all add: ec2_HandleInstanceID_fail ec2_HandleInstanceID_ok serverError_def served_def)

lemma ec2_HandlePublicKeys_rpcs:
  "\<exists>rest. rpcs (ec2_HandlePublicKeys s newConn ip) = CallFind ip # rest \<and>
          (\<forall>a. CallFind a \<notin> set rest)"
proof (cases "ec2_Server.vmregClient s ip")
  case (Inl e)
  then show ?thesis by (simp add: ec2_HandlePublicKeys_fail serverError_def)
next
  case (Inr vm)
  then show ?thesis
    by (cases "ec2_Server.pubkeystoreClient s (VM.Name vm)")
       (simp_all add: ec2_HandlePublicKeys_nokeys ec2_HandlePublicKeys_ok serverError_def served_def)
qed

lemma ec2_HandlePublicKey_rpcs:
  "\<exists>rest. rpcs (ec2_HandlePublicKey s newConn ip k) = CallFind ip # rest \<and>
          (\<forall>a. CallFind a \<notin> set rest)"
proof (cases "ec2_Server.vmregClient s ip")
  case (Inl e)
  then show ?thesis by (simp add: ec2_HandlePublicKey_fail serverError_def)
next
  case (Inr vm)
  then show ?thesis
    by (cases "ec2_Server.pubkeystoreClient s (VM.Name vm)")
       (simp_all add: ec2_HandlePublicKey_nokeys ec2_HandlePublicKey_keys serverError_def served_def)
qed

lemma ec2_HandlePublicKeyData_rpcs:
  "\<exists>rest. rpcs (ec2_HandlePublicKeyData s newConn ip k) = CallFind ip # rest \<and>
          (\<forall>a. CallFind a \<notin> set rest)"
proof (cases "ec2_Server.vmregClient s ip")
  case (Inl e)
  then show ?thesis by (simp add: ec2_HandlePublicKeyData_fail serverError_def)
next
  case (Inr vm)
  then show ?thesis
    by (cases "ec2_Server.pubkeystoreClient s (VM.Name vm)")
       (simp_all add: ec2_HandlePublicKeyData_nokeys ec2_HandlePublicKeyData_keys
          serverError_def served_def)
qed

lemma nocl_HandleMetadata_rpcs:
  "\<exists>rest. rpcs (nocl_HandleMetadata enc n newConn ip) = CallFind ip # rest \<and>
          (\<forall>a. CallFind a \<notin> set rest)"
proof (cases "nocl_Server.vmregClient n ip")
  case (Inl e)
  then show ?thesis by (simp add: nocl_HandleMetadata_fail serverError_def)
next
  case (Inr vm)
  then show ?thesis
    by (cases "nocl_Server.pubkeystoreClient n (VM.Name vm)")
       (simp_all add: nocl_HandleMetadata_nokeys nocl_HandleMetadata_ok serverError_def
          served_def split: sum.splits)
qed

lemma nocl_HandleUserdata_rpcs:
  "\<exists>rest. rpcs (nocl_HandleUserdata n newConn ip) = CallFind ip # rest \<and>
          (\<forall>a. CallFind a \<notin> set rest)"
proof (cases "nocl_Server.vmregClient n ip")
  case (Inl e)
  then show ?thesis by (simp add: nocl_HandleUserdata_fail serverError_def)
next
  case (Inr vm)
  then show ?thesis
    by (cases "nocl_Server.pubkeystoreClient n (VM.Name vm)")
       (simp_all add: nocl_HandleUserdata_nokeys nocl_HandleUserdata_ok serverError_def served_def)
qed

lemma ec2_HandlePublicKeys_finds:
  "CallFind a \<in> set (rpcs (ec2_HandlePublicKeys s newConn ip)) \<Longrightarrow> a = ip"
  using ec2_HandlePublicKeys_rpcs [of s ip] by auto

lemma ec2_HandlePublicKey_finds:
  "CallFind a \<in> set (rpcs (ec2_HandlePublicKey s newConn ip k)) \<Longrightarrow> a = ip"
  using ec2_HandlePublicKey_rpcs [of s ip k] by auto

lemma ec2_HandlePublicKeyData_finds:
  "CallFind a \<in> set (rpcs (ec2_HandlePublicKeyData s newConn ip k)) \<Longrightarrow> a = ip"
  using ec2_HandlePublicKeyData_rpcs [of s ip k] by auto

lemma ec2_NewRouter_finds:
  assumes "CallFind a \<in> set (rpcs (ec2_NewRouter s r newConn rq))"
  shows "a = stripPort (RemoteAddr rq)"
proof (cases r)
  case RMetadata
  with assms show ?thesis
    by (simp add: ec2_NewRouter_simps ec2_HandleMetadata_def writer_defs)
next
  case RHostname
  with assms show ?thesis
    by (simp add: ec2_NewRouter_simps ec2_HandleHostname_rpcs)
next
  case RInstanceID
  with assms show ?thesis
    by (simp add: ec2_NewRouter_simps ec2_HandleInstanceID_rpcs)
next
  case RPublicKeysNoSlash
  with assms show ?thesis
    by (simp add: ec2_NewRouter_def writer_defs)
next
  case RPublicKeys
  with assms show ?thesis
    by (simp add: ec2_NewRouter_simps ec2_HandlePublicKeys_finds)
next
  case (RPublicKey key)
  with assms show ?thesis
    by (cases "Atoi key")
       (auto simp add: ec2_NewRouter_simps unparsable_500 serverError_def
          dest: ec2_HandlePublicKey_finds)
next
  case (RPublicKeyData key)
  with assms show ?thesis
    by (cases "Atoi key")
       (auto simp add: ec2_NewRouter_simps unparsable_500 serverError_def
          dest: ec2_HandlePublicKeyData_finds)
qed

lemma nocl_NewRouter_first_call:
  "\<exists>rest. rpcs (nocl_NewRouter enc n r newConn rq) = CallFind (stripPort (RemoteAddr rq)) # rest \<and>
          (\<forall>a. CallFind a \<notin> set rest)"
  by (cases r) (simp_all add: nocl_NewRouter_simps nocl_HandleMetadata_rpcs nocl_HandleUserdata_rpcs)

subsection \<open>The scenario, evaluated\<close>

lemma demo_backends:
  "ec2_Server.vmregClient demoEc2 ''10.0.0.5'' = Inr demoVM"
  "ec2_Server.pubkeystoreClient demoEc2 (VM.Name demoVM) = Inr [demoKey]"
  "nocl_Server.vmregClient demoNocl ''10.0.0.5'' = Inr demoVM"
  "nocl_Server.pubkeystoreClient demoNocl (VM.Name demoVM) = Inr [demoKey]"
  "ec2_Server.vmregClient demoEc2 ''192.168.1.1'' = Inl (RpcError ''not found'')"
  "nocl_Server.vmregClient demoNocl ''192.168.1.1'' = Inl (RpcError ''not found'')"
  "ec2_Server.vmregClient demoEc2 ''10.0.0.6'' = Inr \<lparr>VM.Name = ''vm-43''\<rparr>"
  "nocl_Server.vmregClient demoNocl ''10.0.0.6'' = Inr \<lparr>VM.Name = ''vm-43''\<rparr>"
  "ec2_Server.pubkeystoreClient demoEc2 ''vm-43'' = Inl (RpcError ''unavailable'')"
  "nocl_Server.pubkeystoreClient demoNocl ''vm-43'' = Inl (RpcError ''unavailable'')"
  by (simp_all add: demoEc2_def demoNocl_def demoFind_def demoGetKeys_def demoVM_def)

lemma demo_address: "stripPort (RemoteAddr demoRequest) = ''10.0.0.5''"
  by (simp add: stripPort_def demoRequest_def)

lemma Atoi_examples:
  "Atoi ''0'' = Inr 0"
  "Atoi ''-1'' = Inr (- 1)"
  "Atoi ''1'' = Inr 1"
  "Atoi ''x'' = Inl ErrSyntax"
  by (simp_all add: Atoi_def parseDigits_def isDigit_def)

subsection \<open>Decimal indices\<close>

lemma digitChar_code: "d < 10 \<Longrightarrow> of_char (digitChar d) = (48 :: nat) + d"
proof -
  assume "d < 10"
  then have "d \<in> {0, 1, 2, 3, 4, 5, 6, 7, 8, 9}"
    by auto
  then show ?thesis
    by (auto simp add: digitChar_def)
qed

lemma isDigit_digitChar: "d < 10 \<Longrightarrow> isDigit (digitChar d)"
  by (simp add: isDigit_def digitChar_code)

lemma digitChar_not_sign: "d < 10 \<Longrightarrow> digitChar d \<noteq> CHR ''-'' \<and> digitChar d \<noteq> CHR ''+''"
proof -
  assume "d < 10"
  then have "of_char (digitChar d) = (48 :: nat) + d"
    by (rule digitChar_code)
  then show ?thesis
    by auto
qed

lemma digitsVal_append:
  "digitsVal acc (xs @ [c]) = digitsVal acc xs * 10 + (of_char c - (48 :: nat))"
  by (induction xs arbitrary: acc) simp_all

lemma Itoa_digits: "Itoa n \<noteq> [] \<and> list_all isDigit (Itoa n) \<and> digitsVal 0 (Itoa n) = n"
proof (induction n rule: Itoa.induct)
  case (1 n)
  show ?case
  proof (cases "n < 10")
    case True
    then show ?thesis
      by (simp add: Itoa.simps [of n] isDigit_digitChar digitChar_code)
  next
    case False
    with "1.IH" have "Itoa (n div 10) \<noteq> []" "list_all isDigit (Itoa (n div 10))"
      "digitsVal 0 (Itoa (n div 10)) = n div 10"
      by simp_all
    with False show ?thesis
      by (simp add: Itoa.simps [of n] isDigit_digitChar digitChar_code digitsVal_append)
  qed
qed

lemma Itoa_no_sign: "hd (Itoa n) \<noteq> CHR ''-'' \<and> hd (Itoa n) \<noteq> CHR ''+''"
proof -
  have "Itoa n \<noteq> []" and "list_all isDigit (Itoa n)"
    using Itoa_digits [of n] by simp_all
  then have "isDigit (hd (Itoa n))"
    by (cases "Itoa n") simp_all
  then show ?thesis
    by (auto simp add: isDigit_def)
qed

lemma Atoi_Itoa: "n < 9223372036854775808 \<Longrightarrow> Atoi (Itoa n) = Inr (int n)"
proof -
  assume small: "n < 9223372036854775808"
  obtain c cs where split: "Itoa n = c # cs"
    using Itoa_digits [of n] by (cases "Itoa n") auto
  with Itoa_no_sign [of n] have "c \<noteq> CHR ''-''" "c \<noteq> CHR ''+''"
    by simp_all
  then have "Atoi (Itoa n) = parseDigits False (Itoa n)"
    by (simp add: Atoi_def split)
  also have "\<dots> = Inr (int n)"
    using Itoa_digits [of n] small by (simp add: parseDigits_def)
  finally show ?thesis .
qed

lemma Atoi_negative: "Atoi (CHR ''-'' # Itoa n) = (if 9223372036854775808 < n then Inl ErrRange else Inr (- int n))"
  using Itoa_digits [of n] by (simp add: Atoi_def parseDigits_def)

subsection \<open>The key index\<close>

lemma key_index_unparsable:
  "Atoi key = Inl err \<Longrightarrow>
   ec2_NewRouter s (RPublicKey key) newConn rq = serverError [] \<and>
   ec2_NewRouter s (RPublicKeyData key) newConn rq = serverError []"
  by (simp add: ec2_NewRouter_simps unparsable_500)

lemma key_index_too_large:
  assumes "Atoi key = Inr k"
    and "ec2_Server.vmregClient s (stripPort (RemoteAddr rq)) = Inr vm"
    and "ec2_Server.pubkeystoreClient s (VM.Name vm) = Inr ks"
    and "int (length ks) \<le> k"
  shows "ec2_NewRouter s (RPublicKey key) newConn rq =
           serverError [CallFind (stripPort (RemoteAddr rq)), CallGetKeys (VM.Name vm)] \<and>
         ec2_NewRouter s (RPublicKeyData key) newConn rq =
           serverError [CallFind (stripPort (RemoteAddr rq)), CallGetKeys (VM.Name vm)]"
  using assms
  by (simp add: ec2_NewRouter_simps ec2_HandlePublicKey_keys ec2_HandlePublicKeyData_keys)

lemma key_index_negative:
  assumes "Atoi key = Inr k"
    and "ec2_Server.vmregClient s (stripPort (RemoteAddr rq)) = Inr vm"
    and "ec2_Server.pubkeystoreClient s (VM.Name vm) = Inr ks"
    and "k < 0"
  shows "ec2_NewRouter s (RPublicKey key) newConn rq =
           served ''openssh-key'' [CallFind (stripPort (RemoteAddr rq)), CallGetKeys (VM.Name vm)] \<and>
         ec2_NewRouter s (RPublicKeyData key) newConn rq =
           \<lparr>resp = newResponse,
            rpcs = [CallFind (stripPort (RemoteAddr rq)), CallGetKeys (VM.Name vm)],
            panic = Some (IndexOutOfRange k (length ks))\<rparr>"
  using assms
  by (simp add: ec2_NewRouter_simps ec2_HandlePublicKey_keys ec2_HandlePublicKeyData_keys)

subsection \<open>Lines of a listing\<close>

lemma Join_newlines:
  "xs \<noteq> [] \<Longrightarrow> (\<And>x. x \<in> set xs \<Longrightarrow> c \<notin> set x) \<Longrightarrow>
   count_list (Join xs [c]) c = length xs - 1"
proof (induction xs "[c]" rule: Join.induct)
  case 1
  then show ?case by simp
next
  case (2 x)
  then show ?case by (simp add: count_list_0_iff)
next
  case (3 x y ys)
  then have "count_list (Join (y # ys) [c]) c = length (y # ys) - 1"
    by simp
  moreover have "count_list x c = 0"
    using "3.prems" by (simp add: count_list_0_iff)
  ultimately show ?case
    by simp
qed

lemma Itoa_no_newline: "CHR 0x0A \<notin> set (Itoa n)"
proof
  assume "CHR 0x0A \<in> set (Itoa n)"
  moreover have "list_all isDigit (Itoa n)"
    using Itoa_digits [of n] by simp
  ultimately have "isDigit (CHR 0x0A)"
    by (simp add: list_all_iff)
  then show False
    by (simp add: isDigit_def)
qed

lemma public_keys_listing_newlines:
  assumes vm: "ec2_Server.vmregClient s ip = Inr vm"
    and keys: "ec2_Server.pubkeystoreClient s (VM.Name vm) = Inr ks"
    and some: "ks \<noteq> []"
    and labels: "\<And>k. k \<in> set ks \<Longrightarrow> CHR 0x0A \<notin> set (Key.Name k)"
  shows "count_list (body (resp (ec2_HandlePublicKeys s newConn ip))) (CHR 0x0A) = length ks - 1"
proof -
  let ?entries = "map (\<lambda>i. Itoa i @ ''='' @ Key.Name (ks ! i)) [0..<length ks]"
  have "ec2_HandlePublicKeys s newConn ip =
      served (Join ?entries [CHR 0x0A]) [CallFind ip, CallGetKeys (VM.Name vm)]"
    using vm keys by (rule ec2_HandlePublicKeys_ok)
  then have "body (resp (ec2_HandlePublicKeys s newConn ip)) = Join ?entries [CHR 0x0A]"
    by (simp add: served_def)
  moreover have "?entries \<noteq> []"
    using some by simp
  moreover have "CHR 0x0A \<notin> set x" if "x \<in> set ?entries" for x
  proof -
    from that obtain i where "i < length ks" and "x = Itoa i @ ''='' @ Key.Name (ks ! i)"
      by auto
    then show ?thesis
      using labels [of "ks ! i"] Itoa_no_newline [of i] by simp
  qed
  ultimately show ?thesis
    using Join_newlines [of ?entries "CHR 0x0A"] by simp
qed

section \<open>The properties of the specification\<close>

text \<open>
  C1.  The key index of \<open>public-keys/{index}/\<close> and of its \<open>openssh-key\<close> child is
  rejected with status 500 when it does not parse and when it is at least the number
  of keys, but a negative index is not: for the index -1 and a VM with one key, the
  first endpoint answers 200 with the body openssh-key, and the second indexes the key
  list out of range, which ends the handler in a runtime panic with nothing written,
  not even the status 500.
\<close>

theorem negative_key_index_is_not_rejected:
  "ec2_NewRouter demoEc2 (RPublicKey ''-1'') newConn demoRequest =
     served ''openssh-key'' [CallFind ''10.0.0.5'', CallGetKeys ''vm-42'']
   \<and> ec2_NewRouter demoEc2 (RPublicKeyData ''-1'') newConn demoRequest =
     \<lparr>resp = \<lparr>status = None, headers = [], body = []\<rparr>,
      rpcs = [CallFind ''10.0.0.5'', CallGetKeys ''vm-42''],
      panic = Some (IndexOutOfRange (- 1) 1)\<rparr>"
proof -
  have vm: "ec2_Server.vmregClient demoEc2 (stripPort (RemoteAddr demoRequest)) = Inr demoVM"
    by (simp add: demo_address demo_backends)
  have idx: "Atoi ''-1'' = Inr (- 1)"
    by (simp add: Atoi_examples)
  show ?thesis
    using key_index_negative [OF idx vm demo_backends(2)]
    by (simp add: demo_address demoVM_def newResponse_def)
qed

text \<open>
  C2.  For the same VM record, the body of the EC2 \<open>instance-id\<close> endpoint and the
  \<open>instance-id\<close> entry of the document the NoCloud metadata handler serializes are
  both the string i- followed by the VM's name.
\<close>

theorem instance_id_same_in_both_renderers:
  assumes ec2: "ec2_Server.vmregClient s ip = Inr vm"
    and nocl: "nocl_Server.vmregClient n ip' = Inr vm"
    and keys: "nocl_Server.pubkeystoreClient n (VM.Name vm) = Inr ks"
  shows "ec2_HandleInstanceID s newConn ip = served (''i-'' @ VM.Name vm) [CallFind ip]
    \<and> nocl_HandleMetadata enc n newConn ip' =
        (case enc [(''local-hostname'', YString (VM.Name vm)),
                   (''instance-id'', YString (''i-'' @ VM.Name vm)),
                   (''public-keys'',
                    YSeq (map (\<lambda>k. Algo k @ '' '' @ Pubkey k @ '' '' @ Comment k) ks))] of
           Inl err \<Rightarrow> serverError [CallFind ip', CallGetKeys (VM.Name vm)]
         | Inr text \<Rightarrow> served text [CallFind ip', CallGetKeys (VM.Name vm)])"
proof
  show "ec2_HandleInstanceID s newConn ip = served (''i-'' @ VM.Name vm) [CallFind ip]"
    using ec2 by (rule ec2_HandleInstanceID_ok)
next
  show "nocl_HandleMetadata enc n newConn ip' =
        (case enc [(''local-hostname'', YString (VM.Name vm)),
                   (''instance-id'', YString (''i-'' @ VM.Name vm)),
                   (''public-keys'',
                    YSeq (map (\<lambda>k. Algo k @ '' '' @ Pubkey k @ '' '' @ Comment k) ks))] of
           Inl err \<Rightarrow> serverError [CallFind ip', CallGetKeys (VM.Name vm)]
         | Inr text \<Rightarrow> served text [CallFind ip', CallGetKeys (VM.Name vm)])"
    using nocl keys by (rule nocl_HandleMetadata_ok)
qed

theorem instance_id_same_in_both_renderers_witness:
  "ec2_Server.vmregClient demoEc2 ''10.0.0.5'' = Inr demoVM
   \<and> nocl_Server.vmregClient demoNocl ''10.0.0.5'' = Inr demoVM
   \<and> nocl_Server.pubkeystoreClient demoNocl (VM.Name demoVM) = Inr [demoKey]
   \<and> ec2_HandleInstanceID demoEc2 newConn ''10.0.0.5'' = served ''i-vm-42'' [CallFind ''10.0.0.5'']
   \<and> nocl_HandleMetadata demoEncoder demoNocl newConn ''10.0.0.5'' =
       served (''local-hostname: vm-42'' @ [CHR 0x0A] @ ''instance-id: i-vm-42'' @ [CHR 0x0A] @
               ''public-keys: [ssh-rsa AAAA host1]'' @ [CHR 0x0A])
         [CallFind ''10.0.0.5'', CallGetKeys ''vm-42'']"
proof -
  have run: "ec2_HandleInstanceID demoEc2 newConn ''10.0.0.5'' = served ''i-vm-42'' [CallFind ''10.0.0.5'']
     \<and> nocl_HandleMetadata demoEncoder demoNocl newConn ''10.0.0.5'' =
       served (''local-hostname: vm-42'' @ [CHR 0x0A] @ ''instance-id: i-vm-42'' @ [CHR 0x0A] @
               ''public-keys: [ssh-rsa AAAA host1]'' @ [CHR 0x0A])
         [CallFind ''10.0.0.5'', CallGetKeys ''vm-42'']"
    using instance_id_same_in_both_renderers
      [OF demo_backends(1) demo_backends(3) demo_backends(4), of demoEncoder]
    by (simp add: demoEncoder_def demoVM_def demoKey_def)
  with demo_backends(1) demo_backends(3) demo_backends(4) show ?thesis
    by simp
qed



text \<open>
  C4.  For the key at backend index \<open>k\<close> of an in-range request, the body of the EC2
  endpoint \<open>public-keys/k/openssh-key\<close> and the \<open>k\<close>-th entry of the \<open>public-keys\<close>
  list in the NoCloud metadata document are the same string: the key's algorithm,
  material and comment joined by single spaces.
\<close>

theorem openssh_key_same_in_both_renderers:
  assumes vm: "ec2_Server.vmregClient s (stripPort (RemoteAddr rq)) = Inr vm"
    and keys: "ec2_Server.pubkeystoreClient s (VM.Name vm) = Inr ks"
    and vm': "nocl_Server.vmregClient n (stripPort (RemoteAddr rq')) = Inr vm'"
    and keys': "nocl_Server.pubkeystoreClient n (VM.Name vm') = Inr ks"
    and idx: "Atoi key = Inr (int k)"
    and inrange: "k < length ks"
  shows "ec2_NewRouter s (RPublicKeyData key) newConn rq =
           served (Algo (ks ! k) @ '' '' @ Pubkey (ks ! k) @ '' '' @ Comment (ks ! k))
             [CallFind (stripPort (RemoteAddr rq)), CallGetKeys (VM.Name vm)]
    \<and> nocl_NewRouter enc n NMetadata newConn rq' =
        (case enc [(''local-hostname'', YString (VM.Name vm')),
                   (''instance-id'', YString (''i-'' @ VM.Name vm')),
                   (''public-keys'',
                    YSeq (map (\<lambda>k. Algo k @ '' '' @ Pubkey k @ '' '' @ Comment k) ks))] of
           Inl err \<Rightarrow> serverError [CallFind (stripPort (RemoteAddr rq')), CallGetKeys (VM.Name vm')]
         | Inr text \<Rightarrow> served text [CallFind (stripPort (RemoteAddr rq')), CallGetKeys (VM.Name vm')])
    \<and> map (\<lambda>k. Algo k @ '' '' @ Pubkey k @ '' '' @ Comment k) ks ! k =
        Algo (ks ! k) @ '' '' @ Pubkey (ks ! k) @ '' '' @ Comment (ks ! k)"
proof (intro conjI)
  show "ec2_NewRouter s (RPublicKeyData key) newConn rq =
           served (Algo (ks ! k) @ '' '' @ Pubkey (ks ! k) @ '' '' @ Comment (ks ! k))
             [CallFind (stripPort (RemoteAddr rq)), CallGetKeys (VM.Name vm)]"
    using inrange by (simp add: ec2_NewRouter_simps idx ec2_HandlePublicKeyData_keys [OF vm keys])
next
  show "nocl_NewRouter enc n NMetadata newConn rq' =
        (case enc [(''local-hostname'', YString (VM.Name vm')),
                   (''instance-id'', YString (''i-'' @ VM.Name vm')),
                   (''public-keys'',
                    YSeq (map (\<lambda>k. Algo k @ '' '' @ Pubkey k @ '' '' @ Comment k) ks))] of
           Inl err \<Rightarrow> serverError [CallFind (stripPort (RemoteAddr rq')), CallGetKeys (VM.Name vm')]
         | Inr text \<Rightarrow> served text [CallFind (stripPort (RemoteAddr rq')), CallGetKeys (VM.Name vm')])"
    by (simp only: nocl_NewRouter_simps nocl_HandleMetadata_ok [OF vm' keys'])
next
  show "map (\<lambda>k. Algo k @ '' '' @ Pubkey k @ '' '' @ Comment k) ks ! k =
        Algo (ks ! k) @ '' '' @ Pubkey (ks ! k) @ '' '' @ Comment (ks ! k)"
    using inrange by simp
qed

theorem openssh_key_same_in_both_renderers_witness:
  "ec2_Server.vmregClient demoEc2 (stripPort (RemoteAddr demoRequest)) = Inr demoVM
   \<and> ec2_Server.pubkeystoreClient demoEc2 (VM.Name demoVM) = Inr [demoKey]
   \<and> nocl_Server.vmregClient demoNocl (stripPort (RemoteAddr demoRequest)) = Inr demoVM
   \<and> nocl_Server.pubkeystoreClient demoNocl (VM.Name demoVM) = Inr [demoKey]
   \<and> Atoi ''0'' = Inr (int 0) \<and> 0 < length [demoKey]
   \<and> ec2_NewRouter demoEc2 (RPublicKeyData ''0'') newConn demoRequest =
       served ''ssh-rsa AAAA host1'' [CallFind ''10.0.0.5'', CallGetKeys ''vm-42'']
   \<and> nocl_NewRouter demoEncoder demoNocl NMetadata newConn demoRequest =
       served (''local-hostname: vm-42'' @ [CHR 0x0A] @ ''instance-id: i-vm-42'' @ [CHR 0x0A] @
               ''public-keys: [ssh-rsa AAAA host1]'' @ [CHR 0x0A])
         [CallFind ''10.0.0.5'', CallGetKeys ''vm-42'']"
proof -
  have vm: "ec2_Server.vmregClient demoEc2 (stripPort (RemoteAddr demoRequest)) = Inr demoVM"
    and vm': "nocl_Server.vmregClient demoNocl (stripPort (RemoteAddr demoRequest)) = Inr demoVM"
    by (simp_all add: demo_address demo_backends)
  have idx: "Atoi ''0'' = Inr (int 0)"
    by (simp add: Atoi_examples)
  have inrange: "0 < length [demoKey]"
    by simp
  have "ec2_NewRouter demoEc2 (RPublicKeyData ''0'') newConn demoRequest =
       served ''ssh-rsa AAAA host1'' [CallFind ''10.0.0.5'', CallGetKeys ''vm-42'']
   \<and> nocl_NewRouter demoEncoder demoNocl NMetadata newConn demoRequest =
       served (''local-hostname: vm-42'' @ [CHR 0x0A] @ ''instance-id: i-vm-42'' @ [CHR 0x0A] @
               ''public-keys: [ssh-rsa AAAA host1]'' @ [CHR 0x0A])
         [CallFind ''10.0.0.5'', CallGetKeys ''vm-42'']"
    using openssh_key_same_in_both_renderers
      [OF vm demo_backends(2) vm' demo_backends(4) idx inrange, of demoEncoder]
    by (simp add: demo_address demoEncoder_def demoVM_def demoKey_def)
  with vm vm' idx inrange demo_backends(2) demo_backends(4) show ?thesis
    by simp
qed

text \<open>
  C5.  A request for \<open>public-keys\<close> without the trailing slash is answered with
  status 301 and the location of the trailing-slash form at 169.254.169.254; no VM is
  resolved and no key is fetched, and the answer does not depend on the backends.
\<close>

theorem public_keys_without_slash_redirects:
  "status (resp (ec2_NewRouter s RPublicKeysNoSlash newConn rq)) = Some 301
   \<and> map_of (headers (resp (ec2_NewRouter s RPublicKeysNoSlash newConn rq))) ''Location'' =
       Some ''http://169.254.169.254/2009-04-04/meta-data/public-keys/''
   \<and> rpcs (ec2_NewRouter s RPublicKeysNoSlash newConn rq) = []
   \<and> panic (ec2_NewRouter s RPublicKeysNoSlash newConn rq) = None
   \<and> ec2_NewRouter s RPublicKeysNoSlash newConn rq = ec2_NewRouter s' RPublicKeysNoSlash newConn rq"
  by (simp add: ec2_NewRouter_def Redirect_def Header_Set_def writer_defs Let_def)

text \<open>
  C6.  In every handler of both renderers, a VM lookup that fails is answered with
  status 500 and not a byte of body after that single lookup, and a key fetch that
  fails is answered the same way after one lookup and one fetch: nothing is retried
  and nothing partial is written.
\<close>

theorem backend_error_answers_500_without_body:
  "(ec2_Server.vmregClient s ip = Inl e \<longrightarrow>
      ec2_HandleHostname s newConn ip = serverError [CallFind ip] \<and>
      ec2_HandleInstanceID s newConn ip = serverError [CallFind ip] \<and>
      ec2_HandlePublicKeys s newConn ip = serverError [CallFind ip] \<and>
      ec2_HandlePublicKey s newConn ip k = serverError [CallFind ip] \<and>
      ec2_HandlePublicKeyData s newConn ip k = serverError [CallFind ip])
   \<and> (nocl_Server.vmregClient n ip = Inl e \<longrightarrow>
      nocl_HandleMetadata enc n newConn ip = serverError [CallFind ip] \<and>
      nocl_HandleUserdata n newConn ip = serverError [CallFind ip])
   \<and> (ec2_Server.vmregClient s ip' = Inr vm \<and> ec2_Server.pubkeystoreClient s (VM.Name vm) = Inl e' \<longrightarrow>
      ec2_HandlePublicKeys s newConn ip' = serverError [CallFind ip', CallGetKeys (VM.Name vm)] \<and>
      ec2_HandlePublicKey s newConn ip' k = serverError [CallFind ip', CallGetKeys (VM.Name vm)] \<and>
      ec2_HandlePublicKeyData s newConn ip' k = serverError [CallFind ip', CallGetKeys (VM.Name vm)])
   \<and> (nocl_Server.vmregClient n ip' = Inr vm \<and> nocl_Server.pubkeystoreClient n (VM.Name vm) = Inl e' \<longrightarrow>
      nocl_HandleMetadata enc n newConn ip' = serverError [CallFind ip', CallGetKeys (VM.Name vm)] \<and>
      nocl_HandleUserdata n newConn ip' = serverError [CallFind ip', CallGetKeys (VM.Name vm)])
   \<and> status (resp (serverError cs)) = Some 500 \<and> body (resp (serverError cs)) = []"
proof (intro conjI impI)
  assume "ec2_Server.vmregClient s ip = Inl e"
  then show "ec2_HandleHostname s newConn ip = serverError [CallFind ip]"
    and "ec2_HandleInstanceID s newConn ip = serverError [CallFind ip]"
    and "ec2_HandlePublicKeys s newConn ip = serverError [CallFind ip]"
    and "ec2_HandlePublicKey s newConn ip k = serverError [CallFind ip]"
    and "ec2_HandlePublicKeyData s newConn ip k = serverError [CallFind ip]"
    by (rule ec2_HandleHostname_fail ec2_HandleInstanceID_fail ec2_HandlePublicKeys_fail
        ec2_HandlePublicKey_fail ec2_HandlePublicKeyData_fail)+
next
  assume "nocl_Server.vmregClient n ip = Inl e"
  then show "nocl_HandleMetadata enc n newConn ip = serverError [CallFind ip]"
    and "nocl_HandleUserdata n newConn ip = serverError [CallFind ip]"
    by (rule nocl_HandleMetadata_fail nocl_HandleUserdata_fail)+
next
  assume "ec2_Server.vmregClient s ip' = Inr vm \<and> ec2_Server.pubkeystoreClient s (VM.Name vm) = Inl e'"
  then have vm: "ec2_Server.vmregClient s ip' = Inr vm"
    and keys: "ec2_Server.pubkeystoreClient s (VM.Name vm) = Inl e'"
    by simp_all
  show "ec2_HandlePublicKeys s newConn ip' = serverError [CallFind ip', CallGetKeys (VM.Name vm)]"
    using vm keys by (rule ec2_HandlePublicKeys_nokeys)
  show "ec2_HandlePublicKey s newConn ip' k = serverError [CallFind ip', CallGetKeys (VM.Name vm)]"
    using vm keys by (rule ec2_HandlePublicKey_nokeys)
  show "ec2_HandlePublicKeyData s newConn ip' k = serverError [CallFind ip', CallGetKeys (VM.Name vm)]"
    using vm keys by (rule ec2_HandlePublicKeyData_nokeys)
next
  assume "nocl_Server.vmregClient n ip' = Inr vm \<and> nocl_Server.pubkeystoreClient n (VM.Name vm) = Inl e'"
  then have vm: "nocl_Server.vmregClient n ip' = Inr vm"
    and keys: "nocl_Server.pubkeystoreClient n (VM.Name vm) = Inl e'"
    by simp_all
  show "nocl_HandleMetadata enc n newConn ip' = serverError [CallFind ip', CallGetKeys (VM.Name vm)]"
    using vm keys by (rule nocl_HandleMetadata_nokeys)
  show "nocl_HandleUserdata n newConn ip' = serverError [CallFind ip', CallGetKeys (VM.Name vm)]"
    using vm keys by (rule nocl_HandleUserdata_nokeys)
next
  show "status (resp (serverError cs)) = Some 500" and "body (resp (serverError cs)) = []"
    by (simp_all add: serverError_def)
qed

theorem backend_error_answers_500_without_body_witness:
  "ec2_Server.vmregClient demoEc2 ''192.168.1.1'' = Inl (RpcError ''not found'')
   \<and> nocl_Server.vmregClient demoNocl ''192.168.1.1'' = Inl (RpcError ''not found'')
   \<and> ec2_Server.vmregClient demoEc2 ''10.0.0.6'' = Inr \<lparr>VM.Name = ''vm-43''\<rparr>
   \<and> ec2_Server.pubkeystoreClient demoEc2 ''vm-43'' = Inl (RpcError ''unavailable'')
   \<and> nocl_Server.vmregClient demoNocl ''10.0.0.6'' = Inr \<lparr>VM.Name = ''vm-43''\<rparr>
   \<and> nocl_Server.pubkeystoreClient demoNocl ''vm-43'' = Inl (RpcError ''unavailable'')
   \<and> ec2_HandleHostname demoEc2 newConn ''192.168.1.1'' = serverError [CallFind ''192.168.1.1'']
   \<and> ec2_HandleInstanceID demoEc2 newConn ''192.168.1.1'' = serverError [CallFind ''192.168.1.1'']
   \<and> ec2_HandlePublicKeys demoEc2 newConn ''192.168.1.1'' = serverError [CallFind ''192.168.1.1'']
   \<and> ec2_HandlePublicKey demoEc2 newConn ''192.168.1.1'' 0 = serverError [CallFind ''192.168.1.1'']
   \<and> ec2_HandlePublicKeyData demoEc2 newConn ''192.168.1.1'' 0 = serverError [CallFind ''192.168.1.1'']
   \<and> nocl_HandleMetadata demoEncoder demoNocl newConn ''192.168.1.1'' = serverError [CallFind ''192.168.1.1'']
   \<and> nocl_HandleUserdata demoNocl newConn ''192.168.1.1'' = serverError [CallFind ''192.168.1.1'']
   \<and> ec2_HandlePublicKeys demoEc2 newConn ''10.0.0.6'' =
       serverError [CallFind ''10.0.0.6'', CallGetKeys ''vm-43'']
   \<and> ec2_HandlePublicKey demoEc2 newConn ''10.0.0.6'' 0 =
       serverError [CallFind ''10.0.0.6'', CallGetKeys ''vm-43'']
   \<and> ec2_HandlePublicKeyData demoEc2 newConn ''10.0.0.6'' 0 =
       serverError [CallFind ''10.0.0.6'', CallGetKeys ''vm-43'']
   \<and> nocl_HandleMetadata demoEncoder demoNocl newConn ''10.0.0.6'' =
       serverError [CallFind ''10.0.0.6'', CallGetKeys ''vm-43'']
   \<and> nocl_HandleUserdata demoNocl newConn ''10.0.0.6'' =
       serverError [CallFind ''10.0.0.6'', CallGetKeys ''vm-43'']"
  using backend_error_answers_500_without_body
    [of demoEc2 "''192.168.1.1''" "RpcError ''not found''" 0 demoNocl demoEncoder
        "''10.0.0.6''" "\<lparr>VM.Name = ''vm-43''\<rparr>" "RpcError ''unavailable''"]
  by (simp add: demo_backends)

lemma stripPort_no_colon: "CHR '':'' \<notin> set (stripPort addr)"
  unfolding stripPort_def by (induction addr) auto

lemma stripPort_prefix:
  "addr = stripPort addr \<or> (\<exists>rest. addr = stripPort addr @ CHR '':'' # rest)"
  unfolding stripPort_def by (induction addr) auto

lemma first_call_take:
  "\<exists>rest. cs = c # rest \<and> P rest \<Longrightarrow> take 1 cs = [c]"
  by auto

text \<open>
  C7.  When the caller's address resolves to a VM and its keys are fetched, the
  NoCloud metadata endpoint hands the serializer a map with exactly the keys
  \<open>local-hostname\<close> (the VM's name), \<open>instance-id\<close> and \<open>public-keys\<close> (each key as
  algorithm, material and comment joined by single spaces).  The serialized text is
  the body of a 200 response; a serialization failure is answered with status 500 and
  no body.
\<close>

theorem nocloud_metadata_document:
  assumes vm: "nocl_Server.vmregClient n (stripPort (RemoteAddr rq)) = Inr vm"
    and keys: "nocl_Server.pubkeystoreClient n (VM.Name vm) = Inr ks"
  shows "nocl_NewRouter enc n NMetadata newConn rq =
        (case enc [(''local-hostname'', YString (VM.Name vm)),
                   (''instance-id'', YString (''i-'' @ VM.Name vm)),
                   (''public-keys'',
                    YSeq (map (\<lambda>k. Algo k @ '' '' @ Pubkey k @ '' '' @ Comment k) ks))] of
           Inl err \<Rightarrow> serverError [CallFind (stripPort (RemoteAddr rq)), CallGetKeys (VM.Name vm)]
         | Inr text \<Rightarrow> served text [CallFind (stripPort (RemoteAddr rq)), CallGetKeys (VM.Name vm)])"
  by (simp only: nocl_NewRouter_simps nocl_HandleMetadata_ok [OF vm keys])

theorem nocloud_metadata_document_witness:
  "nocl_Server.vmregClient demoNocl (stripPort (RemoteAddr demoRequest)) = Inr demoVM
   \<and> nocl_Server.pubkeystoreClient demoNocl (VM.Name demoVM) = Inr [demoKey]
   \<and> nocl_NewRouter demoEncoder demoNocl NMetadata newConn demoRequest =
       served (''local-hostname: vm-42'' @ [CHR 0x0A] @ ''instance-id: i-vm-42'' @ [CHR 0x0A] @
               ''public-keys: [ssh-rsa AAAA host1]'' @ [CHR 0x0A])
         [CallFind ''10.0.0.5'', CallGetKeys ''vm-42'']
   \<and> nocl_NewRouter failingEncoder demoNocl NMetadata newConn demoRequest =
       serverError [CallFind ''10.0.0.5'', CallGetKeys ''vm-42'']"
proof -
  have vm: "nocl_Server.vmregClient demoNocl (stripPort (RemoteAddr demoRequest)) = Inr demoVM"
    by (simp add: demo_address demo_backends)
  have good: "nocl_NewRouter demoEncoder demoNocl NMetadata newConn demoRequest =
       served (''local-hostname: vm-42'' @ [CHR 0x0A] @ ''instance-id: i-vm-42'' @ [CHR 0x0A] @
               ''public-keys: [ssh-rsa AAAA host1]'' @ [CHR 0x0A])
         [CallFind ''10.0.0.5'', CallGetKeys ''vm-42'']"
    using nocloud_metadata_document [OF vm demo_backends(4), of demoEncoder]
    by (simp add: demo_address demoEncoder_def demoVM_def demoKey_def)
  have bad: "nocl_NewRouter failingEncoder demoNocl NMetadata newConn demoRequest =
       serverError [CallFind ''10.0.0.5'', CallGetKeys ''vm-42'']"
    using nocloud_metadata_document [OF vm demo_backends(4), of failingEncoder]
    by (simp add: demo_address failingEncoder_def demoVM_def)
  from vm demo_backends(4) good bad show ?thesis
    by simp
qed

text \<open>
  C8.  When the caller's address resolves to a VM and its keys are fetched, the
  NoCloud user-data endpoint executes the template on the context whose hostname is
  the VM's name, a dot and the configured DNS suffix and whose public keys are the
  keys formatted as algorithm, material and comment joined by single spaces; what the
  template wrote is the whole body of the 200 response.
\<close>

theorem nocloud_userdata_rendering:
  assumes vm: "nocl_Server.vmregClient n (stripPort (RemoteAddr rq)) = Inr vm"
    and keys: "nocl_Server.pubkeystoreClient n (VM.Name vm) = Inr ks"
  shows "nocl_NewRouter enc n NUserdata newConn rq =
     served (fst (nocl_Server.userDataTemplate n
                   \<lparr>Hostname = VM.Name vm @ ''.'' @ dnsName n,
                    UserDataContext.PublicKeys =
                      map (\<lambda>k. Algo k @ '' '' @ Pubkey k @ '' '' @ Comment k) ks\<rparr>))
       [CallFind (stripPort (RemoteAddr rq)), CallGetKeys (VM.Name vm)]"
  by (simp only: nocl_NewRouter_simps nocl_HandleUserdata_ok [OF vm keys])

theorem nocloud_userdata_rendering_witness:
  "nocl_Server.vmregClient demoNocl (stripPort (RemoteAddr demoRequest)) = Inr demoVM
   \<and> nocl_Server.pubkeystoreClient demoNocl (VM.Name demoVM) = Inr [demoKey]
   \<and> nocl_NewRouter demoEncoder demoNocl NUserdata newConn demoRequest =
       served ''fqdn: vm-42.example.org'' [CallFind ''10.0.0.5'', CallGetKeys ''vm-42'']"
proof -
  have vm: "nocl_Server.vmregClient demoNocl (stripPort (RemoteAddr demoRequest)) = Inr demoVM"
    by (simp add: demo_address demo_backends)
  have "nocl_NewRouter demoEncoder demoNocl NUserdata newConn demoRequest =
       served ''fqdn: vm-42.example.org'' [CallFind ''10.0.0.5'', CallGetKeys ''vm-42'']"
    using nocloud_userdata_rendering [OF vm demo_backends(4), of demoEncoder]
    by (simp add: demo_address demoNocl_def demoTemplate_def demoVM_def)
  with vm demo_backends(4) show ?thesis
    by simp
qed

text \<open>
  C9.  In both serving modes, the address a request's handler passes to the VM
  resolver is the request's remote address cut at its first colon: the part before
  it, which holds no colon, or the whole address when there is none.  Every route that
  resolves a VM does so first, with that address.
\<close>

theorem resolver_receives_port_stripped_address:
  "(CallFind a \<in> set (rpcs (ec2_NewRouter s r newConn rq)) \<longrightarrow> a = stripPort (RemoteAddr rq))
   \<and> (CallFind a \<in> set (rpcs (nocl_NewRouter enc n r' newConn rq)) \<longrightarrow>
        a = stripPort (RemoteAddr rq))
   \<and> take 1 (rpcs (ec2_NewRouter s RHostname newConn rq)) = [CallFind (stripPort (RemoteAddr rq))]
   \<and> take 1 (rpcs (ec2_NewRouter s RInstanceID newConn rq)) = [CallFind (stripPort (RemoteAddr rq))]
   \<and> take 1 (rpcs (ec2_NewRouter s RPublicKeys newConn rq)) = [CallFind (stripPort (RemoteAddr rq))]
   \<and> (Atoi key = Inr k \<longrightarrow>
        take 1 (rpcs (ec2_NewRouter s (RPublicKey key) newConn rq)) =
          [CallFind (stripPort (RemoteAddr rq))] \<and>
        take 1 (rpcs (ec2_NewRouter s (RPublicKeyData key) newConn rq)) =
          [CallFind (stripPort (RemoteAddr rq))])
   \<and> take 1 (rpcs (nocl_NewRouter enc n r' newConn rq)) = [CallFind (stripPort (RemoteAddr rq))]
   \<and> CHR '':'' \<notin> set (stripPort (RemoteAddr rq))
   \<and> (RemoteAddr rq = stripPort (RemoteAddr rq) \<or>
       (\<exists>rest. RemoteAddr rq = stripPort (RemoteAddr rq) @ CHR '':'' # rest))"
proof -
  let ?ip = "stripPort (RemoteAddr rq)"
  have ec2: "CallFind a \<in> set (rpcs (ec2_NewRouter s r newConn rq)) \<longrightarrow> a = ?ip"
    by (blast dest: ec2_NewRouter_finds)
  obtain rest where nocl_calls: "rpcs (nocl_NewRouter enc n r' newConn rq) = CallFind ?ip # rest"
    and nocl_rest: "\<forall>a. CallFind a \<notin> set rest"
    using nocl_NewRouter_first_call [of enc n r' rq] by blast
  have nocl: "CallFind a \<in> set (rpcs (nocl_NewRouter enc n r' newConn rq)) \<longrightarrow> a = ?ip"
    using nocl_calls nocl_rest by auto
  have nocl1: "take 1 (rpcs (nocl_NewRouter enc n r' newConn rq)) = [CallFind ?ip]"
    using nocl_calls by simp
  have h1: "take 1 (rpcs (ec2_NewRouter s RHostname newConn rq)) = [CallFind ?ip]"
    by (simp add: ec2_NewRouter_simps ec2_HandleHostname_rpcs)
  have h2: "take 1 (rpcs (ec2_NewRouter s RInstanceID newConn rq)) = [CallFind ?ip]"
    by (simp add: ec2_NewRouter_simps ec2_HandleInstanceID_rpcs)
  have h3: "take 1 (rpcs (ec2_NewRouter s RPublicKeys newConn rq)) = [CallFind ?ip]"
    using ec2_HandlePublicKeys_rpcs [of s ?ip]
    by (simp only: ec2_NewRouter_simps first_call_take)
  have h4: "Atoi key = Inr k \<longrightarrow>
        take 1 (rpcs (ec2_NewRouter s (RPublicKey key) newConn rq)) = [CallFind ?ip] \<and>
        take 1 (rpcs (ec2_NewRouter s (RPublicKeyData key) newConn rq)) = [CallFind ?ip]"
  proof
    assume parsed: "Atoi key = Inr k"
    have "take 1 (rpcs (ec2_HandlePublicKey s newConn ?ip k)) = [CallFind ?ip]"
      using ec2_HandlePublicKey_rpcs [of s ?ip k] by (rule first_call_take)
    moreover have "take 1 (rpcs (ec2_HandlePublicKeyData s newConn ?ip k)) = [CallFind ?ip]"
      using ec2_HandlePublicKeyData_rpcs [of s ?ip k] by (rule first_call_take)
    ultimately show "take 1 (rpcs (ec2_NewRouter s (RPublicKey key) newConn rq)) = [CallFind ?ip] \<and>
        take 1 (rpcs (ec2_NewRouter s (RPublicKeyData key) newConn rq)) = [CallFind ?ip]"
      by (simp add: ec2_NewRouter_simps parsed)
  qed
  from ec2 nocl h1 h2 h3 h4 nocl1 stripPort_no_colon [of "RemoteAddr rq"]
    stripPort_prefix [of "RemoteAddr rq"]
  show ?thesis
    by (intro conjI)
qed

theorem resolver_receives_port_stripped_address_witness:
  "CallFind ''10.0.0.5'' \<in> set (rpcs (ec2_NewRouter demoEc2 RPublicKeys newConn demoRequest))
   \<and> CallFind ''10.0.0.5'' \<in> set (rpcs (nocl_NewRouter demoEncoder demoNocl NUserdata newConn demoRequest))
   \<and> Atoi ''0'' = Inr 0
   \<and> RemoteAddr demoRequest = ''10.0.0.5:51234''
   \<and> ''10.0.0.5'' = stripPort (RemoteAddr demoRequest)
   \<and> take 1 (rpcs (ec2_NewRouter demoEc2 (RPublicKey ''0'') newConn demoRequest)) = [CallFind ''10.0.0.5'']
   \<and> take 1 (rpcs (ec2_NewRouter demoEc2 (RPublicKeyData ''0'') newConn demoRequest)) = [CallFind ''10.0.0.5'']"
proof -
  have p1: "CallFind ''10.0.0.5'' \<in> set (rpcs (ec2_NewRouter demoEc2 RPublicKeys newConn demoRequest))"
    by (simp add: ec2_NewRouter_simps demo_address served_def
        ec2_HandlePublicKeys_ok [OF demo_backends(1) demo_backends(2)])
  have p2: "CallFind ''10.0.0.5'' \<in>
      set (rpcs (nocl_NewRouter demoEncoder demoNocl NUserdata newConn demoRequest))"
    by (simp add: nocl_NewRouter_simps demo_address served_def
        nocl_HandleUserdata_ok [OF demo_backends(3) demo_backends(4)])
  have p3: "Atoi ''0'' = Inr 0"
    by (simp add: Atoi_examples)
  note run = resolver_receives_port_stripped_address
    [of "''10.0.0.5''" demoEc2 RPublicKeys demoRequest demoEncoder demoNocl NUserdata "''0''" 0]
  from run p1 have "''10.0.0.5'' = stripPort (RemoteAddr demoRequest)"
    by blast
  moreover from run p3 have
    "take 1 (rpcs (ec2_NewRouter demoEc2 (RPublicKey ''0'') newConn demoRequest)) =
       [CallFind (stripPort (RemoteAddr demoRequest))]"
    "take 1 (rpcs (ec2_NewRouter demoEc2 (RPublicKeyData ''0'') newConn demoRequest)) =
       [CallFind (stripPort (RemoteAddr demoRequest))]"
    by blast+
  moreover have "RemoteAddr demoRequest = ''10.0.0.5:51234''"
    by (simp add: demoRequest_def)
  ultimately show ?thesis
    using p1 p2 p3 by (simp add: demo_address)
qed

text \<open>
  C10.  The root listing \<open>meta-data/\<close> of the EC2 renderer makes no remote call and
  cannot fail: whatever the server's backends and whatever the request, the answer is
  status 200 with the fixed listing, so any two requests get the same response.
\<close>

theorem root_listing_is_constant:
  "ec2_NewRouter s RMetadata newConn rq =
     served (''hostname'' @ [CHR 0x0A] @ ''instance-id'' @ [CHR 0x0A] @ ''public-keys'') []
   \<and> ec2_NewRouter s RMetadata newConn rq = ec2_NewRouter s' RMetadata newConn rq'"
  by (simp add: ec2_NewRouter_simps ec2_HandleMetadata_def metadataKeys_def writer_defs)

end
